theory Spec2Isabelle
  imports Main "HOL-Library.Word" "HOL-Library.AList"
begin

unbundle bit_operations_syntax

section \<open>Shared data model\<close>

text \<open>
  Byte strings (Python \<open>bytes\<close>) are lists of 8-bit words, text is \<open>string\<close>.
  Every exception the modelled code can raise is a value of \<open>error\<close>; a fallible
  computation returns \<open>error + 'a\<close> with \<open>Inl\<close> for the raised exception.
\<close>

type_synonym byte = "8 word"
type_synonym bytes = "byte list"
type_synonym path = string

datatype error =
    KeyError string
  | ValueError string
  | FileNotFoundError path
  | RuntimeError string
  | AttributeError string
  | BinasciiError string
  | ExternalError string

section \<open>Voice selection (app.py)\<close>

text \<open>
  \<open>voice_dict\<close> is the dictionary literal of app.py, lines 31-36, kept as an association
  list in insertion order, which is the order \<open>list(voice_dict.keys())\<close> has.
\<close>

definition voice_dict :: "(string \<times> string) list" where
  "voice_dict =
     [(''Adam'', ''alloy''),
      (''Onyx'', ''onyx''),
      (''Nova'', ''nova''),
      (''Ocean'', ''shimmer'')]"

definition dict_keys :: "('k \<times> 'v) list \<Rightarrow> 'k list" where
  "dict_keys d = map fst d"

text \<open>Subscription \<open>d[k]\<close>: raises \<open>KeyError\<close> on a missing key.\<close>

definition dict_getitem :: "(string \<times> 'v) list \<Rightarrow> string \<Rightarrow> error + 'v" where
  "dict_getitem d k = (case map_of d k of None \<Rightarrow> Inl (KeyError k) | Some v \<Rightarrow> Inr v)"

text \<open>
  \<open>st.selectbox(label, options)\<close> returns the option at the position the user picked;
  with nothing to pick from it returns \<open>None\<close>. The position is the user's input.
\<close>

definition selectbox :: "'a list \<Rightarrow> nat \<Rightarrow> 'a option" where
  "selectbox options i = (if i < length options then Some (options ! i) else None)"

section \<open>Files on disk\<close>

text \<open>
  The program keeps its state in flat files. A disk is the working directory of the
  process and the regular files that exist, keyed by absolute path. Directories are not
  objects of their own: a directory is there as far as files lie under it. Paths are
  compared as written (no \<open>..\<close>, no links).
\<close>

record disk =
  cwd :: path
  files :: "(path \<times> bytes) list"

text \<open>\<open>os.path.join\<close> of two components: an absolute second component wins.\<close>

definition os_path_join :: "path \<Rightarrow> path \<Rightarrow> path" where
  "os_path_join a b =
     (if b \<noteq> [] \<and> hd b = CHR ''/'' then b
      else if a = [] \<or> last a = CHR ''/'' then a @ b
      else a @ ''/'' @ b)"

text \<open>A path given to \<open>open\<close> is taken relative to the working directory.\<close>

definition abspath :: "disk \<Rightarrow> path \<Rightarrow> path" where
  "abspath d p = os_path_join (cwd d) p"

definition os_path_exists :: "disk \<Rightarrow> path \<Rightarrow> bool" where
  "os_path_exists d p = (map_of (files d) (abspath d p) \<noteq> None)"

text \<open>\<open>open(p, 'rb').read()\<close>: the content, or \<open>FileNotFoundError\<close>.\<close>

definition read_bytes :: "disk \<Rightarrow> path \<Rightarrow> error + bytes" where
  "read_bytes d p =
     (case map_of (files d) (abspath d p) of
        None \<Rightarrow> Inl (FileNotFoundError p)
      | Some content \<Rightarrow> Inr content)"

text \<open>\<open>open(p, 'wb').write(content)\<close>: creates the file or replaces its content.\<close>

definition write_bytes :: "disk \<Rightarrow> path \<Rightarrow> bytes \<Rightarrow> disk" where
  "write_bytes d p content = d\<lparr>files := AList.update (abspath d p) content (files d)\<rparr>"

text \<open>\<open>os.remove(p)\<close> raises \<open>FileNotFoundError\<close> when there is no such file.\<close>

definition os_remove :: "disk \<Rightarrow> path \<Rightarrow> error + disk" where
  "os_remove d p =
     (if os_path_exists d p
      then Inr (d\<lparr>files := AList.delete (abspath d p) (files d)\<rparr>)
      else Inl (FileNotFoundError p))"

text \<open>
  \<open>os.listdir(dir)\<close>: the names of the files directly inside \<open>dir\<close>. Since
  directories are not objects of the disk, a directory with no file in it lists as empty
  (where \<open>os.listdir\<close> raises \<open>FileNotFoundError\<close> if it does not exist), and
  sub-directories are not named.
\<close>

definition os_listdir :: "disk \<Rightarrow> path \<Rightarrow> string list" where
  "os_listdir d dir =
     (let pre = os_path_join (abspath d dir) [] in
      map (drop (length pre))
        (filter (\<lambda>p. length pre < length p \<and> take (length pre) p = pre
                     \<and> CHR ''/'' \<notin> set (drop (length pre) p))
                (map fst (files d))))"

text \<open>\<open>s.endswith(suf)\<close>.\<close>

definition endswith :: "string \<Rightarrow> string \<Rightarrow> bool" where
  "endswith s suf = (length suf \<le> length s \<and> drop (length s - length suf) s = suf)"

section \<open>Base64 (Python standard library)\<close>

text \<open>
  \<open>convert_audio_to_base64\<close> calls \<open>base64.b64encode\<close> of the Python standard
  library, which implements the base 64 encoding of RFC 4648, section 4: three bytes
  become four 6-bit groups, each written as one character of the alphabet below, and a
  final group of one or two bytes is filled with zero bits and padded with \<open>=\<close>.
  \<open>b64encode\<close> returns ASCII bytes and \<open>.decode('utf-8')\<close> turns them into the same
  characters; the model writes the characters at once.
\<close>

definition b64_alphabet :: string where
  "b64_alphabet = ''ABCDEFGHIJKLMNOPQRSTUVWXYZabcdefghijklmnopqrstuvwxyz0123456789+/''"

definition b2a :: "byte \<Rightarrow> char" where
  "b2a s = b64_alphabet ! unat s"

fun index_of :: "'a \<Rightarrow> 'a list \<Rightarrow> nat option" where
  "index_of x [] = None"
| "index_of x (y # ys) = (if x = y then Some 0 else map_option Suc (index_of x ys))"

definition a2b :: "char \<Rightarrow> byte option" where
  "a2b c = map_option of_nat (index_of c b64_alphabet)"

text \<open>The four 6-bit groups of three bytes \<open>a\<close>, \<open>b\<close>, \<open>c\<close>.\<close>

definition enc1 :: "byte \<Rightarrow> byte" where
  "enc1 a = drop_bit 2 a"

definition enc2 :: "byte \<Rightarrow> byte \<Rightarrow> byte" where
  "enc2 a b = (push_bit 4 a OR drop_bit 4 b) AND 63"

definition enc3 :: "byte \<Rightarrow> byte \<Rightarrow> byte" where
  "enc3 b c = (push_bit 2 b OR drop_bit 6 c) AND 63"

definition enc4 :: "byte \<Rightarrow> byte" where
  "enc4 c = c AND 63"

fun b64encode :: "bytes \<Rightarrow> string" where
  "b64encode [] = []"
| "b64encode [a] = [b2a (enc1 a), b2a (enc2 a 0), CHR ''='', CHR ''='']"
| "b64encode [a, b] = [b2a (enc1 a), b2a (enc2 a b), b2a (enc3 b 0), CHR ''='']"
| "b64encode (a # b # c # rest) =
     [b2a (enc1 a), b2a (enc2 a b), b2a (enc3 b c), b2a (enc4 c)] @ b64encode rest"

text \<open>The three bytes of four 6-bit groups.\<close>

definition dec1 :: "byte \<Rightarrow> byte \<Rightarrow> byte" where
  "dec1 s1 s2 = push_bit 2 s1 OR drop_bit 4 s2"

definition dec2 :: "byte \<Rightarrow> byte \<Rightarrow> byte" where
  "dec2 s2 s3 = push_bit 4 s2 OR drop_bit 2 s3"

definition dec3 :: "byte \<Rightarrow> byte \<Rightarrow> byte" where
  "dec3 s3 s4 = push_bit 6 s3 OR s4"

text \<open>
  Decoding by the same section of the RFC: groups of four characters, padding in the last
  group only; anything else is rejected.
\<close>

fun b64decode :: "string \<Rightarrow> error + bytes" where
  "b64decode [] = Inr []"
| "b64decode (c1 # c2 # c3 # c4 # rest) =
     (if rest = [] \<and> c3 = CHR ''='' \<and> c4 = CHR ''='' then
        (case (a2b c1, a2b c2) of
           (Some s1, Some s2) \<Rightarrow> Inr [dec1 s1 s2]
         | _ \<Rightarrow> Inl (BinasciiError ''Invalid character''))
      else if rest = [] \<and> c4 = CHR ''='' then
        (case (a2b c1, a2b c2, a2b c3) of
           (Some s1, Some s2, Some s3) \<Rightarrow> Inr [dec1 s1 s2, dec2 s2 s3]
         | _ \<Rightarrow> Inl (BinasciiError ''Invalid character''))
      else
        (case (a2b c1, a2b c2, a2b c3, a2b c4) of
           (Some s1, Some s2, Some s3, Some s4) \<Rightarrow>
             (case b64decode rest of
                Inl e \<Rightarrow> Inl e
              | Inr bs \<Rightarrow> Inr (dec1 s1 s2 # dec2 s2 s3 # dec3 s3 s4 # bs))
         | _ \<Rightarrow> Inl (BinasciiError ''Invalid character'')))"
| "b64decode _ = Inl (BinasciiError ''Incorrect padding'')"

section \<open>Transcription and speech (transcribe_voice_openai.py)\<close>

text \<open>
  The speech-to-text call is an external service: given the content of the opened file it
  returns the transcript or raises. While it runs the disk is out of the program's hands,
  so it also returns the disk as it is afterwards.
\<close>

type_synonym transcriber = "bytes \<Rightarrow> disk \<Rightarrow> (error + string) \<times> disk"

definition record_and_transcribe ::
  "transcriber \<Rightarrow> bytes \<Rightarrow> disk \<Rightarrow> (error + string) \<times> disk" where
  "record_and_transcribe client audio_bytes d =
     (let filename = ''Question.wav'';
          d1 = write_bytes d filename audio_bytes
      in case read_bytes d1 filename of
           Inl e \<Rightarrow> (Inl e, d1)
         | Inr audio_file \<Rightarrow>
             (case client audio_file d1 of
                (Inl e, d2) \<Rightarrow> (Inl e, d2)
              | (Inr transcript, d2) \<Rightarrow>
                  if os_path_exists d2 filename
                  then (case os_remove d2 filename of
                          Inl e \<Rightarrow> (Inl e, d2)
                        | Inr d3 \<Rightarrow> (Inr transcript, d3))
                  else (Inr transcript, d2)))"

text \<open>
  The text-to-speech call is an external service too: text and voice give the audio, which
  \<open>stream_to_file\<close> writes to \<open>speech.wav\<close>, or the call raises.
\<close>

type_synonym synthesizer = "string \<Rightarrow> string \<Rightarrow> error + bytes"

definition create_output_speech :: "synthesizer \<Rightarrow> string \<Rightarrow> string \<Rightarrow> disk \<Rightarrow> error + disk" where
  "create_output_speech client response_text voice d =
     (case client response_text voice of
        Inl e \<Rightarrow> Inl e
      | Inr audio \<Rightarrow> Inr (write_bytes d ''speech.wav'' audio))"

definition convert_audio_to_base64 :: "disk \<Rightarrow> path \<Rightarrow> error + string" where
  "convert_audio_to_base64 d audio_file_path =
     (case read_bytes d audio_file_path of
        Inl e \<Rightarrow> Inl e
      | Inr content \<Rightarrow> Inr (b64encode content))"

section \<open>Collections and the retriever (vector_store.py, app.py)\<close>

record document =
  page_content :: string
  source :: path

text \<open>
  What the program hands to \<open>BM25Retriever.from_documents\<close>: Python does not tell a
  list of documents from a single one before the call.
\<close>

datatype pyobj = DocList "document list" | Doc document

datatype chat_item = HumanMessage string | Text string

text \<open>
  The collaborators the program calls and does not define: the PDF-to-text conversion
  behind \<open>read\<close>, the decoding done by \<open>TextLoader\<close>, \<open>text_splitter.split_documents\<close>
  (a \<open>RecursiveCharacterTextSplitter\<close> with separators \<open>["\n\n"]\<close>, chunk size 1250,
  overlap 250), the index that \<open>BM25Retriever.from_documents\<close> builds from a list of
  documents, the speech-to-text call, the retrieval chain built from the retriever
  (\<open>rag_chain.invoke\<close>, reduced to its \<open>answer\<close>) and the text-to-speech call.
  \<open>'r\<close> is the type of retrievers.
\<close>

record 'r externals =
  pdf_extract :: "bytes \<Rightarrow> error + bytes"
  decode_text :: "bytes \<Rightarrow> error + string"
  split_documents :: "document list \<Rightarrow> document list"
  from_documents :: "document list \<Rightarrow> error + 'r"
  transcribe :: transcriber
  rag_invoke :: "'r \<Rightarrow> string \<Rightarrow> chat_item list \<Rightarrow> error + string"
  synthesize :: synthesizer

text \<open>
  Modelled from the spec: the \<open>read\<close> module (the PDF extractor imported by
  vector_store.py) is not among the sources. Spec 4.1 and 6: given PDF paths it writes,
  for each, a plain-text file at the path with the same base name and the extension
  \<open>.txt\<close>, adjacent to the PDF; a PDF that cannot be parsed makes the call fail with no
  output.
\<close>

definition txt_path :: "path \<Rightarrow> path" where
  "txt_path p = (if endswith p ''.pdf'' then take (length p - 4) p else p) @ ''.txt''"

fun read :: "(bytes \<Rightarrow> error + bytes) \<Rightarrow> path list \<Rightarrow> disk \<Rightarrow> error + disk" where
  "read extract [] d = Inr d"
| "read extract (p # ps) d =
     (case read_bytes d p of
        Inl e \<Rightarrow> Inl e
      | Inr pdf \<Rightarrow>
          (case extract pdf of
             Inl e \<Rightarrow> Inl e
           | Inr text \<Rightarrow> read extract ps (write_bytes d (txt_path p) text)))"

text \<open>
  \<open>TextLoader(p).load()\<close>: one document holding the decoded content of the file. The
  loader turns every failure to open or to decode the file into a \<open>RuntimeError\<close>.
\<close>

definition TextLoader_load :: "'r externals \<Rightarrow> disk \<Rightarrow> path \<Rightarrow> error + document list" where
  "TextLoader_load ext d p =
     (case read_bytes d p of
        Inl e \<Rightarrow> Inl (RuntimeError (''Error loading '' @ p))
      | Inr content \<Rightarrow>
          (case decode_text ext content of
             Inl e \<Rightarrow> Inl (RuntimeError (''Error loading '' @ p))
           | Inr text \<Rightarrow> Inr [\<lparr>page_content = text, source = p\<rparr>]))"

text \<open>
  \<open>BM25Retriever.from_documents(x)\<close> reads \<open>page_content\<close> and \<open>metadata\<close> of every
  element of \<open>x\<close> and builds the index from them. The elements of a list of documents
  are documents. The elements of a single document are its fields, as pairs of a name and
  a value, and a pair has no \<open>page_content\<close>: the call raises \<open>AttributeError\<close>,
  with the message below (\<open>CHR 0x27\<close> is the quotation mark around the two names).
\<close>

definition no_page_content :: string where
  "no_page_content =
     [CHR 0x27] @ ''tuple'' @ [CHR 0x27] @ '' object has no attribute ''
     @ [CHR 0x27] @ ''page_content'' @ [CHR 0x27]"

definition BM25Retriever_from_documents :: "'r externals \<Rightarrow> pyobj \<Rightarrow> error + 'r" where
  "BM25Retriever_from_documents ext x =
     (case x of
        DocList documents \<Rightarrow> from_documents ext documents
      | Doc d \<Rightarrow> Inl (AttributeError no_page_content))"

definition create_new_collection_streamlit ::
  "'r externals \<Rightarrow> string \<Rightarrow> string \<Rightarrow> disk \<Rightarrow> (error + document list) \<times> disk" where
  "create_new_collection_streamlit ext collection_name_str pdf_file d =
     (case read (pdf_extract ext) [pdf_file @ ''.pdf''] d of
        Inl e \<Rightarrow> (Inl e, d)
      | Inr d1 \<Rightarrow>
          (case TextLoader_load ext d1 (pdf_file @ ''.txt'') of
             Inl e \<Rightarrow> (Inl e, d1)
           | Inr documents \<Rightarrow> (Inr (split_documents ext documents), d1)))"

definition load_BM25Retriever :: "'r externals \<Rightarrow> string \<Rightarrow> disk \<Rightarrow> error + 'r" where
  "load_BM25Retriever ext filepath d =
     (case TextLoader_load ext d (''data/'' @ filepath) of
        Inl e \<Rightarrow> Inl e
      | Inr documents \<Rightarrow>
          BM25Retriever_from_documents ext (DocList (split_documents ext documents)))"

text \<open>
  The assignment \<open>db, splits = xs\<close>: a sequence of any other length than two raises
  \<open>ValueError\<close>, with the message CPython gives.
\<close>

definition unpack2 :: "'a list \<Rightarrow> error + 'a \<times> 'a" where
  "unpack2 xs =
     (case xs of
        [] \<Rightarrow> Inl (ValueError ''not enough values to unpack (expected 2, got 0)'')
      | [a] \<Rightarrow> Inl (ValueError ''not enough values to unpack (expected 2, got 1)'')
      | [a, b] \<Rightarrow> Inr (a, b)
      | a # b # c # rest \<Rightarrow> Inl (ValueError ''too many values to unpack (expected 2)''))"

text \<open>What the user did on the page in one run of the script.\<close>

record ui =
  voice_choice :: nat
  collection_choice :: nat
  new_collection_name :: string
  uploaded_file :: "bytes option"
  submit :: bool
  audio :: "bytes option"

definition collection_list :: "disk \<Rightarrow> string list" where
  "collection_list d =
     filter (\<lambda>file. endswith file ''.txt'') (os_listdir d ''data/'') @ [''Create new collection'']"

text \<open>\<open>None\<close> inside an f-string is written \<open>None\<close>.\<close>

definition format_str :: "string option \<Rightarrow> string" where
  "format_str x = (case x of None \<Rightarrow> ''None'' | Some s \<Rightarrow> s)"

definition initialize_BM25Retriever ::
  "'r externals \<Rightarrow> ui \<Rightarrow> disk \<Rightarrow> (error + 'r option) \<times> disk" where
  "initialize_BM25Retriever ext u d =
     (let collection_name_str = selectbox (collection_list d) (collection_choice u)
      in if collection_name_str = Some ''Create new collection'' then
           (if submit u then
              (case uploaded_file u of
                 None \<Rightarrow> (Inr None, d)
               | Some pdf \<Rightarrow>
                   if new_collection_name u = [] then (Inr None, d)
                   else
                     let d1 = write_bytes d
                                (os_path_join (cwd d) (new_collection_name u @ ''.pdf'')) pdf
                     in (case create_new_collection_streamlit ext
                                (new_collection_name u) (new_collection_name u) d1 of
                           (Inl e, d2) \<Rightarrow> (Inl e, d2)
                         | (Inr chunks, d2) \<Rightarrow>
                             (case unpack2 chunks of
                                Inl e \<Rightarrow> (Inl e, d2)
                              | Inr (db, splits) \<Rightarrow>
                                  (case BM25Retriever_from_documents ext (Doc splits) of
                                     Inl e \<Rightarrow> (Inl e, d2)
                                   | Inr r \<Rightarrow> (Inr (Some r), d2)))))
            else (Inr None, d))
         else
           (case load_BM25Retriever ext (format_str collection_name_str) d of
              Inl e \<Rightarrow> (Inl e, d)
            | Inr r \<Rightarrow> (Inr (Some r), d)))"

section \<open>One turn (app.py)\<close>

text \<open>
  The state that outlives a run of the script: the disk and the entry
  \<open>conversation_history\<close> of \<open>st.session_state\<close> (\<open>None\<close> while the key is absent).
\<close>

record world =
  disk :: disk
  log :: "(string \<times> string) list option"

text \<open>What a run does that can be seen from outside, in the order it does it.\<close>

datatype event =
    AudioRecorded bytes
  | AudioShown bytes
  | TranscribeCall bytes
  | RagInvoke string "chat_item list"
  | SpeechCall string string
  | LogAppend string string
  | LogRendered string string
  | PlayerRendered string

record outcome =
  trace :: "event list"
  raised :: "error option"
  after :: world

definition finished :: "event list \<Rightarrow> world \<Rightarrow> outcome" where
  "finished t w = \<lparr>trace = t, raised = None, after = w\<rparr>"

definition failed :: "event list \<Rightarrow> error \<Rightarrow> world \<Rightarrow> outcome" where
  "failed t e w = \<lparr>trace = t, raised = Some e, after = w\<rparr>"

text \<open>\<open>voice_dict[voice_key]\<close>, where \<open>voice_key\<close> is what the selector returned.\<close>

definition voice_lookup :: "string option \<Rightarrow> error + string" where
  "voice_lookup voice_key =
     (case voice_key of
        None \<Rightarrow> Inl (KeyError ''None'')
      | Some k \<Rightarrow> dict_getitem voice_dict k)"

definition run_chatbot ::
  "'r externals \<Rightarrow> 'r option \<Rightarrow> string option \<Rightarrow> bytes option \<Rightarrow> world \<Rightarrow> outcome" where
  "run_chatbot ext retriever voice_key recorded w =
     (case retriever of
        None \<Rightarrow> finished [] w
      | Some r \<Rightarrow>
          let chat_history = [] in
          (case recorded of
             None \<Rightarrow> finished [] w
           | Some audio_bytes \<Rightarrow>
               if audio_bytes = [] then finished [] w
               else
                 let t1 = [AudioRecorded audio_bytes, AudioShown audio_bytes,
                           TranscribeCall audio_bytes]
                 in (case record_and_transcribe (transcribe ext) audio_bytes (disk w) of
                       (Inl e, d1) \<Rightarrow> failed t1 e (w\<lparr>disk := d1\<rparr>)
                     | (Inr transcript, d1) \<Rightarrow>
                         let user_input = transcript;
                             t2 = t1 @ [RagInvoke user_input chat_history]
                         in (case rag_invoke ext r user_input chat_history of
                               Inl e \<Rightarrow> failed t2 e (w\<lparr>disk := d1\<rparr>)
                             | Inr response \<Rightarrow>
                                 let chat_history =
                                       chat_history @ [HumanMessage user_input, Text response]
                                 in (case voice_lookup voice_key of
                                       Inl e \<Rightarrow> failed t2 e (w\<lparr>disk := d1\<rparr>)
                                     | Inr voice \<Rightarrow>
                                         let t3 = t2 @ [SpeechCall response voice]
                                         in (case create_output_speech (synthesize ext)
                                                    response voice d1 of
                                               Inl e \<Rightarrow> failed t3 e (w\<lparr>disk := d1\<rparr>)
                                             | Inr d2 \<Rightarrow>
                                                 let conversation_history =
                                                       (case log w of None \<Rightarrow> [] | Some h \<Rightarrow> h)
                                                       @ [(''You'', user_input)]
                                                       @ [(''Bot'', response)];
                                                     w2 = \<lparr>disk = d2,
                                                           log = Some conversation_history\<rparr>;
                                                     t4 = t3
                                                       @ [LogAppend ''You'' user_input,
                                                          LogAppend ''Bot'' response]
                                                       @ map (\<lambda>(role, text). LogRendered role text)
                                                           conversation_history
                                                 in (case convert_audio_to_base64 d2
                                                            ''speech.wav'' of
                                                       Inl e \<Rightarrow> failed t4 e w2
                                                     | Inr audio_base64 \<Rightarrow>
                                                         finished
                                                           (t4 @ [PlayerRendered audio_base64])
                                                           w2)))))))"

text \<open>The arguments \<open>initialize_memory\<close> gives to \<open>ConversationSummaryBufferMemory\<close>.\<close>

record memory =
  memory_key :: string
  return_messages :: bool
  summarizer_model :: string
  output_key :: string

definition initialize_memory :: memory where
  "initialize_memory =
     \<lparr>memory_key = ''chat_history'', return_messages = True,
      summarizer_model = ''gpt-3.5-turbo'', output_key = ''answer''\<rparr>"

text \<open>
  One run of the script. \<open>main\<close> binds \<open>memory = initialize_memory()\<close> and passes
  it to nothing.
\<close>

definition main :: "'r externals \<Rightarrow> ui \<Rightarrow> world \<Rightarrow> outcome" where
  "main ext u w =
     (let voice_key = selectbox (dict_keys voice_dict) (voice_choice u);
          memory = initialize_memory
      in (case initialize_BM25Retriever ext u (disk w) of
            (Inl e, d1) \<Rightarrow> failed [] e (w\<lparr>disk := d1\<rparr>)
          | (Inr retriever, d1) \<Rightarrow>
              run_chatbot ext retriever voice_key (audio u) (w\<lparr>disk := d1\<rparr>)))"

text \<open>
  A session: the script runs once for each thing the user does, on the disk and the
  session state the run before left.
\<close>

fun run_session :: "'r externals \<Rightarrow> ui list \<Rightarrow> world \<Rightarrow> outcome list" where
  "run_session ext [] w = []"
| "run_session ext (u # us) w =
     (let out = main ext u w in out # run_session ext us (after out))"

section \<open>Reading a run\<close>

text \<open>
  The six steps of a turn, numbered in the order section 4.6 of the specification gives
  them: receive the audio (0), transcribe (1), answer (2), synthesize (3), append to the
  log (4), render the log and the player (5).
\<close>

fun phase :: "event \<Rightarrow> nat" where
  "phase (AudioRecorded a) = 0"
| "phase (AudioShown a) = 0"
| "phase (TranscribeCall a) = 1"
| "phase (RagInvoke q h) = 2"
| "phase (SpeechCall t v) = 3"
| "phase (LogAppend r t) = 4"
| "phase (LogRendered r t) = 5"
| "phase (PlayerRendered b) = 5"

text \<open>The chat histories a run passed to \<open>rag_chain.invoke\<close>.\<close>

definition history_fed :: "outcome \<Rightarrow> chat_item list list" where
  "history_fed out =
     concat (map (\<lambda>e. case e of RagInvoke q h \<Rightarrow> [h] | _ \<Rightarrow> []) (trace out))"

section \<open>Concrete inputs\<close>

text \<open>
  A disk with one sample collection, stand-ins for the external services, and the things
  a user does: two recorded questions on the sample collection, and the upload of a new
  collection called \<open>depo\<close>.
\<close>

text \<open>
  The voice names a speech service accepts are the service's own, so the results take them
  as a parameter; this is the list of the \<open>tts-1\<close> endpoint that
  \<open>create_output_speech\<close> calls.
\<close>

definition tts_voices :: "string set" where
  "tts_voices = {''alloy'', ''echo'', ''fable'', ''onyx'', ''nova'', ''shimmer''}"

definition sample_disk :: disk where
  "sample_disk =
     \<lparr>cwd = ''/app'', files = [(''/app/data/Sample1.txt'', [73, 32, 119, 97, 115])]\<rparr>"

definition start :: world where
  "start = \<lparr>disk = sample_disk, log = None\<rparr>"

definition stub_transcribe :: transcriber where
  "stub_transcribe a d =
     (Inr (if a = [1] then ''Where were you?'' else ''When did you arrive?''), d)"

text \<open>A speech-to-text call during which the recording disappears from the disk.\<close>

definition gone_transcribe :: transcriber where
  "gone_transcribe a d = (Inr ''Where were you?'', d\<lparr>files := []\<rparr>)"

definition stub :: "(document list \<Rightarrow> document list) \<Rightarrow> document list externals" where
  "stub splitter =
     \<lparr>pdf_extract = (\<lambda>pdf. Inr pdf),
      decode_text = (\<lambda>content. Inr ''I arrived at 9pm.''),
      split_documents = splitter,
      from_documents = (\<lambda>documents. Inr documents),
      transcribe = stub_transcribe,
      rag_invoke = (\<lambda>r q h. Inr ''I was not present.''),
      synthesize = (\<lambda>t v. Inr [82, 73, 70, 70])\<rparr>"

definition second_chunk :: document where
  "second_chunk = \<lparr>page_content = ''I arrived at 9pm.'', source = ''depo.txt''\<rparr>"

definition two_chunks :: "document list \<Rightarrow> document list" where
  "two_chunks ds = ds @ [second_chunk]"

definition first_turn :: ui where
  "first_turn =
     \<lparr>voice_choice = 0, collection_choice = 0, new_collection_name = [],
      uploaded_file = None, submit = False, audio = Some [1]\<rparr>"

definition second_turn :: ui where
  "second_turn = first_turn\<lparr>audio := Some [2]\<rparr>"

definition upload :: ui where
  "upload =
     \<lparr>voice_choice = 0, collection_choice = 1, new_collection_name = ''depo'',
      uploaded_file = Some [37, 80, 68, 70], submit = True, audio = None\<rparr>"

definition after_first_turn :: world where
  "after_first_turn =
     \<lparr>disk = \<lparr>cwd = ''/app'',
               files = [(''/app/data/Sample1.txt'', [73, 32, 119, 97, 115]),
                        (''/app/speech.wav'', [82, 73, 70, 70])]\<rparr>,
      log = Some [(''You'', ''Where were you?''), (''Bot'', ''I was not present.'')]\<rparr>"

text \<open>An answer of 3000 words, and the services with a witness who gives it.\<close>

definition long_answer :: string where
  "long_answer = concat (replicate 3000 ''no '')"

definition long_stub :: "document list externals" where
  "long_stub = (stub id)\<lparr>rag_invoke := (\<lambda>r q h. Inr long_answer)\<rparr>"

definition after_long_turn :: world where
  "after_long_turn =
     \<lparr>disk = \<lparr>cwd = ''/app'',
               files = [(''/app/data/Sample1.txt'', [73, 32, 119, 97, 115]),
                        (''/app/speech.wav'', [82, 73, 70, 70])]\<rparr>,
      log = Some [(''You'', ''Where were you?''), (''Bot'', long_answer)]\<rparr>"

section \<open>Voice selection: results\<close>

lemma voice_keys: "dict_keys voice_dict = [''Adam'', ''Onyx'', ''Nova'', ''Ocean'']"
  by (simp add: dict_keys_def voice_dict_def)

text \<open>
  C10. Every label the voice selector offers is one of Adam, Onyx, Nova, Ocean, and all
  four are offered; the dictionary holds exactly one identifier for the label, and the
  lookup \<open>voice_dict[voice_key]\<close> returns it without raising. The identifiers are
  alloy, onyx, nova and shimmer, so the one returned is valid for every speech service
  that accepts these four.
\<close>

theorem voice_lookup_never_fails:
  assumes "selectbox (dict_keys voice_dict) i = Some k"
      and "{''alloy'', ''onyx'', ''nova'', ''shimmer''} \<subseteq> service_voices"
  shows "k \<in> {''Adam'', ''Onyx'', ''Nova'', ''Ocean''}
       \<and> (\<exists>v. dict_getitem voice_dict k = Inr v \<and> v \<in> service_voices
              \<and> (\<forall>v'. (k, v') \<in> set voice_dict \<longrightarrow> v' = v))
       \<and> map (selectbox (dict_keys voice_dict)) [0, 1, 2, 3]
           = map Some [''Adam'', ''Onyx'', ''Nova'', ''Ocean'']"
proof -
  from assms(1) have i: "i < 4" and k: "k = [''Adam'', ''Onyx'', ''Nova'', ''Ocean''] ! i"
    by (auto simp: selectbox_def voice_keys split: if_splits)
  from i have "i = 0 \<or> i = 1 \<or> i = 2 \<or> i = 3" by arith
  with k have "k = ''Adam'' \<or> k = ''Onyx'' \<or> k = ''Nova'' \<or> k = ''Ocean''"
    by auto
  with assms(2) have "k \<in> {''Adam'', ''Onyx'', ''Nova'', ''Ocean''}
       \<and> (\<exists>v. dict_getitem voice_dict k = Inr v \<and> v \<in> service_voices
              \<and> (\<forall>v'. (k, v') \<in> set voice_dict \<longrightarrow> v' = v))"
    by (auto simp: dict_getitem_def voice_dict_def)
  moreover have "map (selectbox (dict_keys voice_dict)) [0, 1, 2, 3]
           = map Some [''Adam'', ''Onyx'', ''Nova'', ''Ocean'']"
    by (simp add: selectbox_def voice_keys)
  ultimately show ?thesis by blast
qed

theorem voice_lookup_never_fails_witness:
  "selectbox (dict_keys voice_dict) 3 = Some ''Ocean''
   \<and> {''alloy'', ''onyx'', ''nova'', ''shimmer''} \<subseteq> tts_voices
   \<and> dict_getitem voice_dict ''Ocean'' = Inr ''shimmer''
   \<and> ''shimmer'' \<in> tts_voices"
proof -
  have sel: "selectbox (dict_keys voice_dict) 3 = Some ''Ocean''"
    by (simp add: selectbox_def voice_keys)
  have sub: "{''alloy'', ''onyx'', ''nova'', ''shimmer''} \<subseteq> tts_voices"
    by (simp add: tts_voices_def)
  from voice_lookup_never_fails [OF sel sub]
  have "\<exists>v. dict_getitem voice_dict ''Ocean'' = Inr v \<and> v \<in> tts_voices" by blast
  moreover have "dict_getitem voice_dict ''Ocean'' = Inr ''shimmer''"
    by (simp add: dict_getitem_def voice_dict_def)
  ultimately show ?thesis using sel sub by auto
qed

section \<open>Base64: results\<close>

lemma index_of_nth: "distinct xs \<Longrightarrow> i < length xs \<Longrightarrow> index_of (xs ! i) xs = Some i"
proof (induction xs arbitrary: i)
  case Nil
  then show ?case by simp
next
  case (Cons x xs)
  then show ?case by (cases i) auto
qed

lemma b64_alphabet_distinct: "distinct b64_alphabet"
  by (simp add: b64_alphabet_def)

lemma b64_alphabet_length: "length b64_alphabet = 64"
  by (simp add: b64_alphabet_def)

lemma a2b_b2a: "unat s < 64 \<Longrightarrow> a2b (b2a s) = Some s"
  by (simp add: a2b_def b2a_def index_of_nth b64_alphabet_distinct b64_alphabet_length)

lemma b2a_not_pad: "unat s < 64 \<Longrightarrow> b2a s \<noteq> CHR ''=''"
proof -
  assume "unat s < 64"
  then have "b2a s \<in> set b64_alphabet"
    by (simp add: b2a_def b64_alphabet_length)
  moreover have "CHR ''='' \<notin> set b64_alphabet"
    by (simp add: b64_alphabet_def)
  ultimately show ?thesis by auto
qed

lemma mask63: "(63::byte) = mask 6"
  by (simp add: mask_eq_exp_minus_1)

lemma sextet_bound: "unat (x AND (63::byte)) < 64"
proof -
  have "x AND 63 \<le> 63"
    by (simp add: word_and_le1)
  then have "unat (x AND 63) \<le> 63"
    by (simp add: word_le_nat_alt)
  then show ?thesis by simp
qed

lemma enc1_bound: "unat (enc1 a) < 64"
proof -
  have "unat (drop_bit 2 a) = unat a div 4"
    by (simp add: drop_bit_eq_div unat_div)
  moreover have "unat a < 256"
    using unsigned_less [of a] by simp
  ultimately show ?thesis by (simp add: enc1_def)
qed

lemma enc_bounds: "unat (enc2 a b) < 64" "unat (enc3 b c) < 64" "unat (enc4 c) < 64"
  by (simp_all add: enc2_def enc3_def enc4_def sextet_bound)

lemma shift_arith:
  "Suc (Suc (n - 2)) = (if 2 \<le> n then n else 2)"
  "4 + (n - 4) = (if 4 \<le> n then n else 4)"
  "6 + (n - 6) = (if 6 \<le> n then n else 6)"
  by auto

text \<open>The bytes come back from their 6-bit groups, bit by bit.\<close>

lemma dec1_enc: "dec1 (enc1 a) (enc2 a b) = a"
  unfolding dec1_def enc1_def enc2_def mask63
  by (rule bit_word_eqI) (auto simp: bit_simps shift_arith not_less)

lemma dec2_enc: "dec2 (enc2 a b) (enc3 b c) = b"
  unfolding dec2_def enc2_def enc3_def mask63
  by (rule bit_word_eqI) (auto simp: bit_simps shift_arith not_less)

lemma dec3_enc: "dec3 (enc3 b c) (enc4 c) = c"
  unfolding dec3_def enc3_def enc4_def mask63
  by (rule bit_word_eqI) (auto simp: bit_simps shift_arith not_less)

lemmas b64_group = a2b_b2a b2a_not_pad enc1_bound enc_bounds dec1_enc dec2_enc dec3_enc

lemma b64decode_b64encode: "b64decode (b64encode bs) = Inr bs"
proof (induction bs rule: b64encode.induct)
  case 1
  show ?case by simp
next
  case (2 a)
  show ?case by (simp add: b64_group)
next
  case (3 a b)
  show ?case by (simp add: b64_group)
next
  case (4 a b c rest)
  then show ?case by (simp add: b64_group)
qed

text \<open>
  C8. Whatever bytes the audio file holds, \<open>convert_audio_to_base64\<close> returns a string
  whose base64 decoding is exactly those bytes.
\<close>

theorem base64_round_trip:
  assumes "read_bytes d audio_file_path = Inr audio_bytes"
  shows "\<exists>s. convert_audio_to_base64 d audio_file_path = Inr s
             \<and> b64decode s = Inr audio_bytes"
  using assms by (simp add: convert_audio_to_base64_def b64decode_b64encode)

lemma speech_read: "read_bytes (disk after_first_turn) ''speech.wav'' = Inr [82, 73, 70, 70]"
  by (simp add: after_first_turn_def read_bytes_def abspath_def os_path_join_def)

lemma speech_encoded:
  "convert_audio_to_base64 (disk after_first_turn) ''speech.wav'' = Inr ''UklGRg==''"
  by (simp add: convert_audio_to_base64_def speech_read enc1_def enc2_def enc3_def enc4_def
        b2a_def b64_alphabet_def)

theorem base64_round_trip_witness:
  "convert_audio_to_base64 (disk after_first_turn) ''speech.wav'' = Inr ''UklGRg==''
   \<and> b64decode ''UklGRg=='' = Inr [82, 73, 70, 70]"
  using base64_round_trip [OF speech_read] speech_encoded by simp

section \<open>Transcription: results\<close>

text \<open>
  C6. \<open>record_and_transcribe\<close> succeeds exactly when the speech-to-text call does, with
  the same transcript or error: it adds no error of its own, whatever has become of
  Question.wav during the call, since the file is removed only if it is still there.
  After a call that succeeded, Question.wav does not exist.
\<close>

theorem temp_file_removed:
  "fst (record_and_transcribe client audio_bytes d)
     = fst (client audio_bytes (write_bytes d ''Question.wav'' audio_bytes))
   \<and> (\<forall>t. fst (record_and_transcribe client audio_bytes d) = Inr t
        \<longrightarrow> \<not> os_path_exists (snd (record_and_transcribe client audio_bytes d))
                ''Question.wav'')"
  by (auto simp: record_and_transcribe_def Let_def read_bytes_def write_bytes_def update_conv'
        os_remove_def os_path_exists_def abspath_def delete_conv'
      split: prod.splits sum.splits option.splits)

lemma gone_call:
  "gone_transcribe [1] (write_bytes sample_disk ''Question.wav'' [1])
     = (Inr ''Where were you?'', \<lparr>cwd = ''/app'', files = []\<rparr>)"
  by (simp add: gone_transcribe_def write_bytes_def sample_disk_def)

theorem temp_file_removed_witness:
  "\<not> os_path_exists (snd (gone_transcribe [1] (write_bytes sample_disk ''Question.wav'' [1])))
       ''Question.wav''
   \<and> fst (record_and_transcribe gone_transcribe [1] sample_disk) = Inr ''Where were you?''
   \<and> \<not> os_path_exists (snd (record_and_transcribe gone_transcribe [1] sample_disk))
         ''Question.wav''
   \<and> fst (record_and_transcribe stub_transcribe [1] sample_disk) = Inr ''Where were you?''
   \<and> \<not> os_path_exists (snd (record_and_transcribe stub_transcribe [1] sample_disk))
         ''Question.wav''"
proof -
  have gone: "\<not> os_path_exists
      (snd (gone_transcribe [1] (write_bytes sample_disk ''Question.wav'' [1]))) ''Question.wav''"
    by (simp add: gone_call os_path_exists_def)
  have g: "fst (record_and_transcribe gone_transcribe [1] sample_disk) = Inr ''Where were you?''"
    using temp_file_removed [of gone_transcribe "[1]" sample_disk] by (simp add: gone_call)
  have s: "fst (record_and_transcribe stub_transcribe [1] sample_disk) = Inr ''Where were you?''"
    using temp_file_removed [of stub_transcribe "[1]" sample_disk]
    by (simp add: stub_transcribe_def)
  from gone g s
    temp_file_removed [of gone_transcribe "[1]" sample_disk]
    temp_file_removed [of stub_transcribe "[1]" sample_disk]
  show ?thesis by blast
qed

section \<open>Evaluating the model\<close>

lemmas model_defs =
  main_def initialize_BM25Retriever_def collection_list_def os_listdir_def
  abspath_def os_path_join_def endswith_def selectbox_def format_str_def
  load_BM25Retriever_def TextLoader_load_def BM25Retriever_from_documents_def
  read_bytes_def write_bytes_def
  run_chatbot_def record_and_transcribe_def os_path_exists_def os_remove_def
  voice_lookup_def dict_getitem_def dict_keys_def voice_dict_def
  create_output_speech_def convert_audio_to_base64_def finished_def failed_def
  create_new_collection_streamlit_def txt_path_def unpack2_def
  enc1_def enc2_def enc3_def enc4_def b2a_def b64_alphabet_def AList.delete_eq Let_def

lemmas stub_defs =
  stub_def stub_transcribe_def sample_disk_def start_def first_turn_def second_turn_def
  upload_def after_first_turn_def second_chunk_def two_chunks_def

section \<open>Turns: results\<close>

lemma phase_render:
  "map (phase \<circ> (\<lambda>(role, text). LogRendered role text)) h = replicate (length h) 5"
  by (induction h) auto

lemma player_not_in_log:
  "PlayerRendered b \<notin> set (map (\<lambda>(role, text). LogRendered role text) h)"
  by (induction h) auto

text \<open>
  C7. A turn (a retriever is there and audio was recorded) does its steps in the order
  receive audio, transcribe, answer, synthesize, append to the log, render, each step on
  what the step before it returned: the recording goes to the transcription, the
  transcript to the answer pipeline, the answer to the speech synthesis, transcript and
  answer go to the log, user before bot, the log with both entries is rendered, and the
  player gets the synthesized audio. If a call raises, the turn ends there with that
  error and no later step is done; if none raises, the turn runs to its end. The player
  is rendered exactly in the runs that do not raise, and the phases of a run never go
  back.
\<close>

theorem turn_runs_in_order:
  assumes "audio_bytes \<noteq> []"
      and "out = run_chatbot ext (Some r) voice_key (Some audio_bytes) w"
      and "received = [AudioRecorded audio_bytes, AudioShown audio_bytes,
                       TranscribeCall audio_bytes]"
      and "old = (case log w of None \<Rightarrow> [] | Some h \<Rightarrow> h)"
  shows "sorted (map phase (trace out))
    \<and> (raised out = None \<longleftrightarrow> (\<exists>b. PlayerRendered b \<in> set (trace out)))
    \<and> (\<forall>e d1. record_and_transcribe (transcribe ext) audio_bytes (disk w) = (Inl e, d1) \<longrightarrow>
          out = failed received e (w\<lparr>disk := d1\<rparr>))
    \<and> (\<forall>q d1. record_and_transcribe (transcribe ext) audio_bytes (disk w) = (Inr q, d1) \<longrightarrow>
          (\<forall>e. rag_invoke ext r q [] = Inl e \<longrightarrow>
             out = failed (received @ [RagInvoke q []]) e (w\<lparr>disk := d1\<rparr>))
        \<and> (\<forall>ans. rag_invoke ext r q [] = Inr ans \<longrightarrow>
             (\<forall>e. voice_lookup voice_key = Inl e \<longrightarrow>
                out = failed (received @ [RagInvoke q []]) e (w\<lparr>disk := d1\<rparr>))
           \<and> (\<forall>v. voice_lookup voice_key = Inr v \<longrightarrow>
                (\<forall>e. synthesize ext ans v = Inl e \<longrightarrow>
                   out = failed (received @ [RagInvoke q [], SpeechCall ans v]) e
                           (w\<lparr>disk := d1\<rparr>))
              \<and> (\<forall>speech. synthesize ext ans v = Inr speech \<longrightarrow>
                   out = finished
                           (received
                            @ [RagInvoke q [], SpeechCall ans v,
                               LogAppend ''You'' q, LogAppend ''Bot'' ans]
                            @ map (\<lambda>(role, text). LogRendered role text)
                                (old @ [(''You'', q), (''Bot'', ans)])
                            @ [PlayerRendered (b64encode speech)])
                           \<lparr>disk = write_bytes d1 ''speech.wav'' speech,
                            log = Some (old @ [(''You'', q), (''Bot'', ans)])\<rparr>))))"
  using assms
  by (auto simp: run_chatbot_def finished_def failed_def Let_def phase_render sorted_append
        player_not_in_log create_output_speech_def convert_audio_to_base64_def
        read_bytes_def write_bytes_def abspath_def update_conv'
      split: prod.splits sum.splits option.splits)

lemma first_run:
  "main (stub id) first_turn start =
     \<lparr>trace =
        [AudioRecorded [1], AudioShown [1], TranscribeCall [1],
         RagInvoke ''Where were you?'' [],
         SpeechCall ''I was not present.'' ''alloy'',
         LogAppend ''You'' ''Where were you?'',
         LogAppend ''Bot'' ''I was not present.'',
         LogRendered ''You'' ''Where were you?'',
         LogRendered ''Bot'' ''I was not present.'',
         PlayerRendered ''UklGRg==''],
      raised = None,
      after = after_first_turn\<rparr>"
  by (simp add: model_defs stub_defs)

lemma second_run:
  "main (stub id) second_turn after_first_turn =
     \<lparr>trace =
        [AudioRecorded [2], AudioShown [2], TranscribeCall [2],
         RagInvoke ''When did you arrive?'' [],
         SpeechCall ''I was not present.'' ''alloy'',
         LogAppend ''You'' ''When did you arrive?'',
         LogAppend ''Bot'' ''I was not present.'',
         LogRendered ''You'' ''Where were you?'',
         LogRendered ''Bot'' ''I was not present.'',
         LogRendered ''You'' ''When did you arrive?'',
         LogRendered ''Bot'' ''I was not present.'',
         PlayerRendered ''UklGRg==''],
      raised = None,
      after = after_first_turn
        \<lparr>log := Some [(''You'', ''Where were you?''), (''Bot'', ''I was not present.''),
                      (''You'', ''When did you arrive?''), (''Bot'', ''I was not present.'')]\<rparr>\<rparr>"
  by (simp add: model_defs stub_defs)

lemma stub_calls:
  "record_and_transcribe (transcribe (stub id)) [1] (disk start)
     = (Inr ''Where were you?'', sample_disk)"
  "rag_invoke (stub id) [] ''Where were you?'' [] = Inr ''I was not present.''"
  "voice_lookup (Some ''Adam'') = Inr ''alloy''"
  "synthesize (stub id) ''I was not present.'' ''alloy'' = Inr [82, 73, 70, 70]"
  by (simp_all add: model_defs stub_defs)

theorem turn_runs_in_order_witness:
  "run_chatbot (stub id) (Some []) (Some ''Adam'') (Some [1]) start
     = finished
         [AudioRecorded [1], AudioShown [1], TranscribeCall [1],
          RagInvoke ''Where were you?'' [],
          SpeechCall ''I was not present.'' ''alloy'',
          LogAppend ''You'' ''Where were you?'',
          LogAppend ''Bot'' ''I was not present.'',
          LogRendered ''You'' ''Where were you?'',
          LogRendered ''Bot'' ''I was not present.'',
          PlayerRendered (b64encode [82, 73, 70, 70])]
         \<lparr>disk = write_bytes sample_disk ''speech.wav'' [82, 73, 70, 70],
          log = Some [(''You'', ''Where were you?''), (''Bot'', ''I was not present.'')]\<rparr>
   \<and> sorted (map phase
         (trace (run_chatbot (stub id) (Some []) (Some ''Adam'') (Some [1]) start)))"
proof -
  have ne: "[1::byte] \<noteq> []" by simp
  have old: "[] = (case log start of None \<Rightarrow> [] | Some h \<Rightarrow> h)"
    by (simp add: start_def)
  note turn = turn_runs_in_order [OF ne refl refl old, of "stub id" "[]" "Some ''Adam''"]
  from turn stub_calls
  have completed: "run_chatbot (stub id) (Some []) (Some ''Adam'') (Some [1]) start
     = finished
         [AudioRecorded [1], AudioShown [1], TranscribeCall [1],
          RagInvoke ''Where were you?'' [],
          SpeechCall ''I was not present.'' ''alloy'',
          LogAppend ''You'' ''Where were you?'',
          LogAppend ''Bot'' ''I was not present.'',
          LogRendered ''You'' ''Where were you?'',
          LogRendered ''Bot'' ''I was not present.'',
          PlayerRendered (b64encode [82, 73, 70, 70])]
         \<lparr>disk = write_bytes sample_disk ''speech.wav'' [82, 73, 70, 70],
          log = Some [(''You'', ''Where were you?''), (''Bot'', ''I was not present.'')]\<rparr>"
    by simp
  from turn
  have "sorted (map phase
         (trace (run_chatbot (stub id) (Some []) (Some ''Adam'') (Some [1]) start)))"
    by blast
  with completed show ?thesis by blast
qed

lemma history_fed_empty:
  "h \<in> set (history_fed (run_chatbot ext retriever voice_key recorded w)) \<Longrightarrow> h = []"
  by (auto simp: history_fed_def run_chatbot_def finished_def failed_def Let_def
      split: prod.splits sum.splits option.splits if_splits)

text \<open>
  C2. Two turns of one session on the sample collection: the second run passes the empty
  chat history to the retrieval chain, although the session has the first exchange in its
  log. \<open>run_chatbot\<close> starts every run from \<open>chat_history = []\<close>, and what it
  appends after the answer is lost with the run.
\<close>

theorem second_turn_history_empty:
  "map history_fed (run_session (stub id) [first_turn, second_turn] start) = [[[]], [[]]]
   \<and> map (\<lambda>out. log (after out)) (run_session (stub id) [first_turn, second_turn] start)
       = [Some [(''You'', ''Where were you?''), (''Bot'', ''I was not present.'')],
          Some [(''You'', ''Where were you?''), (''Bot'', ''I was not present.''),
                (''You'', ''When did you arrive?''), (''Bot'', ''I was not present.'')]]"
proof -
  have runs: "run_session (stub id) [first_turn, second_turn] start
      = [main (stub id) first_turn start, main (stub id) second_turn after_first_turn]"
    by (simp add: first_run Let_def)
  have logged: "log after_first_turn
      = Some [(''You'', ''Where were you?''), (''Bot'', ''I was not present.'')]"
    by (simp add: after_first_turn_def)
  show ?thesis
    unfolding runs by (simp add: first_run second_run history_fed_def logged)
qed

lemma length_concat_replicate: "length (concat (replicate n xs)) = n * length xs"
  by (induction n) auto

lemma long_first_run:
  "main long_stub first_turn start =
     \<lparr>trace =
        [AudioRecorded [1], AudioShown [1], TranscribeCall [1],
         RagInvoke ''Where were you?'' [],
         SpeechCall long_answer ''alloy'',
         LogAppend ''You'' ''Where were you?'',
         LogAppend ''Bot'' long_answer,
         LogRendered ''You'' ''Where were you?'',
         LogRendered ''Bot'' long_answer,
         PlayerRendered ''UklGRg==''],
      raised = None,
      after = after_long_turn\<rparr>"
  by (simp add: model_defs stub_defs long_stub_def after_long_turn_def)

lemma long_second_run:
  "main long_stub second_turn after_long_turn =
     \<lparr>trace =
        [AudioRecorded [2], AudioShown [2], TranscribeCall [2],
         RagInvoke ''When did you arrive?'' [],
         SpeechCall long_answer ''alloy'',
         LogAppend ''You'' ''When did you arrive?'',
         LogAppend ''Bot'' long_answer,
         LogRendered ''You'' ''Where were you?'',
         LogRendered ''Bot'' long_answer,
         LogRendered ''You'' ''When did you arrive?'',
         LogRendered ''Bot'' long_answer,
         PlayerRendered ''UklGRg==''],
      raised = None,
      after = after_long_turn
        \<lparr>log := Some [(''You'', ''Where were you?''), (''Bot'', long_answer),
                      (''You'', ''When did you arrive?''), (''Bot'', long_answer)]\<rparr>\<rparr>"
  by (simp add: model_defs stub_defs long_stub_def after_long_turn_def)

text \<open>
  C3. A session whose first answer has 3000 words, 9000 characters: the exchange is in the
  session's log, and the second run feeds the pipeline the empty history, which is neither
  that exchange nor a summary of it. Nothing in a run hands the history to the memory
  object, which \<open>main\<close> builds and passes to nothing.
\<close>

theorem long_history_never_fed:
  "length long_answer = 9000
   \<and> map (\<lambda>out. log (after out)) (run_session long_stub [first_turn, second_turn] start)
       = [Some [(''You'', ''Where were you?''), (''Bot'', long_answer)],
          Some [(''You'', ''Where were you?''), (''Bot'', long_answer),
                (''You'', ''When did you arrive?''), (''Bot'', long_answer)]]
   \<and> map history_fed (run_session long_stub [first_turn, second_turn] start) = [[[]], [[]]]"
proof -
  have long: "length long_answer = 9000"
    by (simp add: long_answer_def length_concat_replicate)
  have runs: "run_session long_stub [first_turn, second_turn] start
      = [main long_stub first_turn start, main long_stub second_turn after_long_turn]"
    by (simp add: long_first_run Let_def)
  have logged: "log after_long_turn
      = Some [(''You'', ''Where were you?''), (''Bot'', long_answer)]"
    by (simp add: after_long_turn_def)
  show ?thesis
    unfolding runs by (simp add: long long_first_run long_second_run history_fed_def logged)
qed

section \<open>Collections: results\<close>

lemma unpack2_length:
  "unpack2 xs =
     (if length xs = 2 then Inr (xs ! 0, xs ! 1)
      else if length xs = 0
        then Inl (ValueError ''not enough values to unpack (expected 2, got 0)'')
      else if length xs = 1
        then Inl (ValueError ''not enough values to unpack (expected 2, got 1)'')
      else Inl (ValueError ''too many values to unpack (expected 2)''))"
  by (auto simp: unpack2_def split: list.splits)

text \<open>
  C5, as amended. On the submit path of "Create new collection", once
  \<open>create_new_collection_streamlit\<close> has returned its one list of chunks, the
  assignment \<open>db, splits = ...\<close> raises \<open>ValueError\<close> unless the list has exactly
  two chunks; with exactly two, \<open>BM25Retriever.from_documents\<close> is called on the second
  chunk alone, a single document and not a list, and raises \<open>AttributeError\<close>. The
  submit path builds no retriever.
\<close>

theorem create_path_never_builds:
  assumes "selectbox (collection_list d) (collection_choice u) = Some ''Create new collection''"
      and "submit u"
      and "new_collection_name u \<noteq> []"
      and "uploaded_file u = Some pdf"
      and "create_new_collection_streamlit ext (new_collection_name u) (new_collection_name u)
             (write_bytes d (os_path_join (cwd d) (new_collection_name u @ ''.pdf'')) pdf)
           = (Inr chunks, d')"
  shows "(length chunks \<noteq> 2 \<longrightarrow>
            (\<exists>msg. fst (initialize_BM25Retriever ext u d) = Inl (ValueError msg)))
       \<and> (length chunks = 2 \<longrightarrow>
            fst (initialize_BM25Retriever ext u d) = Inl (AttributeError no_page_content))"
  using assms
  by (auto simp: initialize_BM25Retriever_def Let_def unpack2_length
        BM25Retriever_from_documents_def)

lemma upload_selects_create:
  "selectbox (collection_list sample_disk) (collection_choice upload) = Some ''Create new collection''"
  by (simp add: model_defs stub_defs)

lemma upload_chunks:
  "create_new_collection_streamlit (stub two_chunks) (new_collection_name upload) (new_collection_name upload)
     (write_bytes sample_disk (os_path_join (cwd sample_disk) (new_collection_name upload @ ''.pdf''))
        [37, 80, 68, 70])
   = (Inr [\<lparr>page_content = ''I arrived at 9pm.'', source = ''depo.txt''\<rparr>, second_chunk],
      \<lparr>cwd = ''/app'',
        files = [(''/app/data/Sample1.txt'', [73, 32, 119, 97, 115]),
                 (''/app/depo.pdf'', [37, 80, 68, 70]),
                 (''/app/depo.txt'', [37, 80, 68, 70])]\<rparr>)"
  by (simp add: model_defs stub_def sample_disk_def upload_def two_chunks_def)

lemma upload_one_chunk:
  "create_new_collection_streamlit (stub id) (new_collection_name upload) (new_collection_name upload)
     (write_bytes sample_disk (os_path_join (cwd sample_disk) (new_collection_name upload @ ''.pdf''))
        [37, 80, 68, 70])
   = (Inr [\<lparr>page_content = ''I arrived at 9pm.'', source = ''depo.txt''\<rparr>],
      \<lparr>cwd = ''/app'',
        files = [(''/app/data/Sample1.txt'', [73, 32, 119, 97, 115]),
                 (''/app/depo.pdf'', [37, 80, 68, 70]),
                 (''/app/depo.txt'', [37, 80, 68, 70])]\<rparr>)"
  by (simp add: model_defs stub_def sample_disk_def upload_def)

theorem create_path_never_builds_witness:
  "fst (initialize_BM25Retriever (stub two_chunks) upload sample_disk)
     = Inl (AttributeError no_page_content)
   \<and> (\<exists>msg. fst (initialize_BM25Retriever (stub id) upload sample_disk)
              = Inl (ValueError msg))"
proof -
  have h: "submit upload" "new_collection_name upload \<noteq> []"
       "uploaded_file upload = Some [37, 80, 68, 70]"
    by (simp_all add: upload_def)
  from create_path_never_builds [OF upload_selects_create h upload_chunks]
    create_path_never_builds [OF upload_selects_create h upload_one_chunk]
  show ?thesis by simp
qed

text \<open>
  C5, as stated, fails: with exactly two chunks the submit path does not give the
  retriever of the second chunk, which the stand-in library would build from the list
  holding that chunk; it raises \<open>AttributeError\<close>.
\<close>

theorem second_chunk_retriever_counterexample:
  "from_documents (stub two_chunks) [second_chunk] = Inr [second_chunk]
   \<and> fst (initialize_BM25Retriever (stub two_chunks) upload sample_disk)
       \<noteq> Inr (Some [second_chunk])
   \<and> fst (initialize_BM25Retriever (stub two_chunks) upload sample_disk)
       = Inl (AttributeError no_page_content)"
  by (simp add: model_defs stub_defs)

section \<open>New collections: results\<close>

lemma filter_keys_update:
  "\<not> P k \<Longrightarrow> filter P (map fst (AList.update k v al)) = filter P (map fst al)"
  by (induction al) auto

lemma listdir_write_outside:
  assumes "\<And>pre. take (length pre) (abspath d p) = pre
             \<Longrightarrow> pre \<noteq> os_path_join (abspath d dir) []"
  shows "os_listdir (write_bytes d p content) dir = os_listdir d dir"
  using assms
  by (auto simp: os_listdir_def write_bytes_def abspath_def Let_def
      intro!: arg_cong [where f = "map _"] filter_keys_update)

lemma in_set_of_take: "take n xs = ys \<Longrightarrow> x \<in> set ys \<Longrightarrow> x \<in> set xs"
  by (auto dest: in_set_takeD)

lemma abspath_plain:
  assumes "CHR ''/'' \<notin> set rest" and "cwd d \<noteq> []"
  shows "abspath d rest = (if last (cwd d) = CHR ''/'' then cwd d else cwd d @ ''/'') @ rest"
proof -
  have "rest = [] \<or> hd rest \<noteq> CHR ''/''"
    using assms(1) by (cases rest) auto
  then show ?thesis
    using assms(2) by (auto simp: abspath_def os_path_join_def)
qed

lemma not_under_data:
  assumes "CHR ''/'' \<notin> set rest" and "cwd d \<noteq> []"
    and "take (length pre) (abspath d rest) = pre"
  shows "pre \<noteq> os_path_join (abspath d ''data/'') []"
proof
  assume p: "pre = os_path_join (abspath d ''data/'') []"
  define c where "c = (if last (cwd d) = CHR ''/'' then cwd d else cwd d @ ''/'')"
  have a: "abspath d rest = c @ rest"
    using abspath_plain [OF assms(1,2)] by (simp add: c_def)
  have b: "pre = c @ ''data/''"
    using assms(2) p by (auto simp: abspath_def os_path_join_def c_def)
  from assms(3) have "take (length c + 5) (c @ rest) = c @ ''data/''"
    unfolding a b by simp
  then have "take 5 rest = ''data/''" by simp
  then have "CHR ''/'' \<in> set rest" by (rule in_set_of_take) simp
  with assms(1) show False by simp
qed

lemma txt_path_pdf: "txt_path (name @ ''.pdf'') = name @ ''.txt''"
  by (simp add: txt_path_def endswith_def)

lemma abspath_write: "abspath (write_bytes d p c) q = abspath d q"
  by (simp add: abspath_def write_bytes_def)

lemma write_abs:
  "cwd d \<noteq> [] \<Longrightarrow> hd (cwd d) = CHR ''/''
     \<Longrightarrow> write_bytes d (os_path_join (cwd d) p) c = write_bytes d p c"
  by (auto simp: write_bytes_def abspath_def os_path_join_def)

lemma collection_list_write:
  assumes "CHR ''/'' \<notin> set rest" and "cwd d \<noteq> []"
  shows "collection_list (write_bytes d rest content) = collection_list d"
  unfolding collection_list_def
  by (simp add: listdir_write_outside [OF not_under_data [OF assms]])

lemma read_written: "read_bytes (write_bytes d p c) p = Inr c"
  by (simp add: read_bytes_def write_bytes_def abspath_def update_conv')

lemma read_other:
  "abspath d q \<noteq> abspath d p \<Longrightarrow> read_bytes (write_bytes d p c) q = read_bytes d q"
  by (simp add: read_bytes_def write_bytes_def abspath_def update_conv')

text \<open>
  C4, as amended. A collection created from an upload under a name without \<open>/\<close> is
  materialized next to the uploaded PDF, as \<open><name>.txt\<close> in the working directory;
  the collections listed from \<open>data/\<close> are the same after the creation as before it.
\<close>

theorem new_collection_in_working_directory:
  assumes create: "selectbox (collection_list d) (collection_choice u)
                     = Some ''Create new collection''"
      and submit: "submit u"
      and name: "new_collection_name u \<noteq> []" "CHR ''/'' \<notin> set (new_collection_name u)"
      and pdf: "uploaded_file u = Some pdf" "pdf_extract ext pdf = Inr text"
      and cwd: "cwd d \<noteq> []" "hd (cwd d) = CHR ''/''"
  shows "read_bytes (snd (initialize_BM25Retriever ext u d)) (new_collection_name u @ ''.pdf'')
           = Inr pdf
       \<and> read_bytes (snd (initialize_BM25Retriever ext u d)) (new_collection_name u @ ''.txt'')
           = Inr text
       \<and> abspath (snd (initialize_BM25Retriever ext u d)) (new_collection_name u @ ''.txt'')
           = os_path_join (cwd d) (new_collection_name u @ ''.txt'')
       \<and> collection_list (snd (initialize_BM25Retriever ext u d)) = collection_list d"
proof -
  let ?n = "new_collection_name u"
  let ?d1 = "write_bytes d (?n @ ''.pdf'') pdf"
  let ?d2 = "write_bytes ?d1 (?n @ ''.txt'') text"
  have s1: "CHR ''/'' \<notin> set (?n @ ''.pdf'')" and s2: "CHR ''/'' \<notin> set (?n @ ''.txt'')"
    using name(2) by auto
  have cwd1: "cwd ?d1 \<noteq> []"
    using cwd(1) by (simp add: write_bytes_def)
  have created: "create_new_collection_streamlit ext ?n ?n ?d1
      = (case TextLoader_load ext ?d2 (?n @ ''.txt'') of
           Inl e \<Rightarrow> (Inl e, ?d2)
         | Inr documents \<Rightarrow> (Inr (split_documents ext documents), ?d2))"
    by (simp add: create_new_collection_streamlit_def read_written pdf(2) txt_path_pdf)
  have after: "snd (initialize_BM25Retriever ext u d) = ?d2"
    using create submit name(1) pdf(1)
    by (auto simp: initialize_BM25Retriever_def Let_def write_abs [OF cwd] created
        split: sum.splits prod.splits)
  have differ: "abspath ?d1 (?n @ ''.pdf'') \<noteq> abspath ?d1 (?n @ ''.txt'')"
    by (simp add: abspath_plain [OF s1 cwd1] abspath_plain [OF s2 cwd1])
  have "read_bytes ?d2 (?n @ ''.pdf'') = Inr pdf"
    using read_other [OF differ] by (simp add: read_written)
  moreover have "read_bytes ?d2 (?n @ ''.txt'') = Inr text"
    by (rule read_written)
  moreover have "abspath ?d2 (?n @ ''.txt'') = os_path_join (cwd d) (?n @ ''.txt'')"
    by (simp add: abspath_write) (simp add: abspath_def)
  moreover have "collection_list ?d2 = collection_list d"
    using collection_list_write [OF s2 cwd1] collection_list_write [OF s1 cwd(1)] by simp
  ultimately show ?thesis
    unfolding after by blast
qed

lemma upload_result:
  "snd (initialize_BM25Retriever (stub id) upload sample_disk)
     = \<lparr>cwd = ''/app'',
        files = [(''/app/data/Sample1.txt'', [73, 32, 119, 97, 115]),
                 (''/app/depo.pdf'', [37, 80, 68, 70]),
                 (''/app/depo.txt'', [37, 80, 68, 70])]\<rparr>"
  by (simp add: model_defs stub_defs)

theorem new_collection_in_working_directory_witness:
  "read_bytes (snd (initialize_BM25Retriever (stub id) upload sample_disk)) ''depo.txt''
     = Inr [37, 80, 68, 70]
   \<and> abspath (snd (initialize_BM25Retriever (stub id) upload sample_disk)) ''depo.txt''
     = ''/app/depo.txt''
   \<and> collection_list (snd (initialize_BM25Retriever (stub id) upload sample_disk))
     = [''Sample1.txt'', ''Create new collection'']"
proof -
  have h: "submit upload" "new_collection_name upload \<noteq> []"
      "CHR ''/'' \<notin> set (new_collection_name upload)"
      "uploaded_file upload = Some [37, 80, 68, 70]"
      "pdf_extract (stub id) [37, 80, 68, 70] = Inr [37, 80, 68, 70]"
      "cwd sample_disk \<noteq> []" "hd (cwd sample_disk) = CHR ''/''"
    by (simp_all add: upload_def stub_def sample_disk_def)
  have l: "collection_list sample_disk = [''Sample1.txt'', ''Create new collection'']"
    by (simp add: model_defs stub_defs)
  have n: "new_collection_name upload = ''depo''" "cwd sample_disk = ''/app''"
    by (simp_all add: upload_def sample_disk_def)
  from new_collection_in_working_directory [OF upload_selects_create h]
  show ?thesis by (simp add: l n os_path_join_def)
qed

text \<open>
  C4, as stated, fails: after the upload of \<open>depo\<close> there is \<open>depo.txt\<close> in the
  working directory, no \<open>data/depo.txt\<close>, and \<open>depo.txt\<close> is not among the listed
  collections.
\<close>

theorem new_collection_listed_counterexample:
  "fst (initialize_BM25Retriever (stub id) upload sample_disk)
     = Inl (ValueError ''not enough values to unpack (expected 2, got 1)'')
   \<and> os_path_exists (snd (initialize_BM25Retriever (stub id) upload sample_disk)) ''depo.txt''
   \<and> \<not> os_path_exists (snd (initialize_BM25Retriever (stub id) upload sample_disk))
         ''data/depo.txt''
   \<and> ''depo.txt'' \<notin> set (collection_list
         (snd (initialize_BM25Retriever (stub id) upload sample_disk)))"
proof -
  have "fst (initialize_BM25Retriever (stub id) upload sample_disk)
     = Inl (ValueError ''not enough values to unpack (expected 2, got 1)'')"
    by (simp add: model_defs stub_defs)
  then show ?thesis
    unfolding upload_result
    by (simp add: os_path_exists_def abspath_def os_path_join_def collection_list_def
          os_listdir_def endswith_def Let_def)
qed

end
